theory Spec2Isabelle
  imports Complex_Main "HOL-Library.Sublist"
begin

section \<open>JavaScript values and strings\<close>

text \<open>
  The repository is a Next.js application: an admin-only page (\<open>ProtectedPage\<close>) and a
  floating chat widget (\<open>Chat\<close>) that keeps its history in \<open>localStorage\<close>, posts each
  submitted message to a webhook and renders the formatted reply.

  A JavaScript string is the list of its code units; \<open>char\<close> holds the code units
  below 256, so \<open>length\<close> is the \<open>.length\<close> of such a string. A value read back from
  storage or received from the network is untyped at run time, whatever the TypeScript
  annotation says, so it is a \<open>jsval\<close>. A number \<open>JNum n\<close> is an integer that a
  double holds exactly, of magnitude below \<open>2^53\<close> (\<open>-0\<close> is read as \<open>0\<close>, which no
  operation used here tells apart).
\<close>

datatype error = SyntaxError | TypeError | Unsupported

datatype jsval =
    JUndefined
  | JNull
  | JBool bool
  | JNum int
  | JStr string
  | JArr "jsval list"
  | JObj "(string \<times> jsval) list"

text \<open>The first exception thrown while the elements of an array are visited in order.\<close>

fun sequence :: "(error + 'a) list \<Rightarrow> error + 'a list" where
  "sequence [] = Inr []"
| "sequence (Inl e # rs) = Inl e"
| "sequence (Inr x # rs) = (case sequence rs of Inl e \<Rightarrow> Inl e | Inr xs \<Rightarrow> Inr (x # xs))"

text \<open>\<open>String.prototype.trim\<close>: white space and line terminators, on both sides.\<close>

definition is_space :: "char \<Rightarrow> bool" where
  "is_space c = (c \<in> set [CHR 0x09, CHR 0x0A, CHR 0x0B, CHR 0x0C, CHR 0x0D, CHR 0x20, CHR 0xA0])"

definition trim :: "string \<Rightarrow> string" where
  "trim s = rev (dropWhile is_space (rev (dropWhile is_space s)))"

definition endsWith :: "string \<Rightarrow> string \<Rightarrow> bool" where
  "endsWith s t = suffix t s"

text \<open>
  \<open>String.prototype.split\<close> with a string separator: the pieces between the
  occurrences of the separator, found from left to right; \<open>split_on\<close> is the case of a
  non-empty separator, and an empty separator splits into code units.
\<close>

fun split_on :: "string \<Rightarrow> string \<Rightarrow> string list" where
  "split_on sep [] = [[]]"
| "split_on sep (c # cs) =
     (if prefix sep (c # cs) then [] # split_on sep (drop (length sep - 1) cs)
      else (case split_on sep cs of [] \<Rightarrow> [[c]] | f # fs \<Rightarrow> (c # f) # fs))"

definition split :: "string \<Rightarrow> string \<Rightarrow> string list" where
  "split sep s = (if sep = [] then map (\<lambda>c. [c]) s else split_on sep s)"

text \<open>\<open>Array.prototype.join\<close> on strings.\<close>

fun join :: "string \<Rightarrow> string list \<Rightarrow> string" where
  "join sep [] = []"
| "join sep [x] = x"
| "join sep (x # y # ys) = x @ sep @ join sep (y # ys)"

text \<open>Digits of a natural number in base 10 and in base 16 (lower case).\<close>

fun decimal :: "nat \<Rightarrow> string" where
  "decimal n =
     (if n < 10 then [''0123456789'' ! n]
      else decimal (n div 10) @ [''0123456789'' ! (n mod 10)])"

fun hexadecimal :: "nat \<Rightarrow> string" where
  "hexadecimal n =
     (if n < 16 then [''0123456789abcdef'' ! n]
      else hexadecimal (n div 16) @ [''0123456789abcdef'' ! (n mod 16)])"

text \<open>\<open>Number.prototype.toString(radix)\<close> of an integer, for the radices 10 and 16.\<close>

definition toString10 :: "int \<Rightarrow> string" where
  "toString10 n = (if n < 0 then ''-'' @ decimal (nat (- n)) else decimal (nat n))"

definition toString16 :: "int \<Rightarrow> string" where
  "toString16 n = (if n < 0 then ''-'' @ hexadecimal (nat (- n)) else hexadecimal (nat n))"

text \<open>
  \<open>String(v)\<close>. An array joins the strings of its elements with commas, \<open>null\<close> and
  \<open>undefined\<close> elements giving the empty string. A plain object gives
  \<open>[object Object]\<close>, unless it has a property \<open>toString\<close> of its own: that property
  of a parsed value is never a function, so the conversion finds no primitive and
  throws a TypeError.
\<close>

fun ToString :: "jsval \<Rightarrow> error + string" where
  "ToString JUndefined = Inr ''undefined''"
| "ToString JNull = Inr ''null''"
| "ToString (JBool b) = Inr (if b then ''true'' else ''false'')"
| "ToString (JNum n) = Inr (toString10 n)"
| "ToString (JStr s) = Inr s"
| "ToString (JArr xs) =
     (case sequence (map (\<lambda>x. if x = JUndefined \<or> x = JNull then Inr [] else ToString x) xs) of
        Inl e \<Rightarrow> Inl e
      | Inr ss \<Rightarrow> Inr (join '','' ss))"
| "ToString (JObj ps) =
     (if ''toString'' \<in> fst ` set ps then Inl TypeError else Inr ''[object Object]'')"

text \<open>Truthiness, as \<open>||\<close>, \<open>!\<close> and \<open>if\<close> read a value.\<close>

fun truthy :: "jsval \<Rightarrow> bool" where
  "truthy JUndefined = False"
| "truthy JNull = False"
| "truthy (JBool b) = b"
| "truthy (JNum n) = (n \<noteq> 0)"
| "truthy (JStr s) = (s \<noteq> [])"
| "truthy (JArr xs) = True"
| "truthy (JObj ps) = True"

text \<open>
  Reading a property \<open>v.k\<close>, for the names this program reads (\<open>role\<close>, \<open>content\<close>,
  \<open>props\<close>, \<open>children\<close>, \<open>output\<close>): none of them is inherited from a prototype, so
  only an object's own property is found; \<open>null\<close> and \<open>undefined\<close> have no properties
  and reading one throws a TypeError.
\<close>

fun get_prop :: "jsval \<Rightarrow> string \<Rightarrow> error + jsval" where
  "get_prop JUndefined k = Inl TypeError"
| "get_prop JNull k = Inl TypeError"
| "get_prop (JObj ps) k = Inr (case map_of ps k of None \<Rightarrow> JUndefined | Some v \<Rightarrow> v)"
| "get_prop v k = Inr JUndefined"

section \<open>The reply formatter\<close>

text \<open>
  A React fragment \<open><>...</>\<close> as \<open>formatResponse\<close> builds it: its \<open>props.children\<close>
  is either the text itself or the array of \<open><p key={index}>\<close> elements, one per
  paragraph.
\<close>

datatype children = Text string | Paragraphs "string list"

datatype element = Fragment children

text \<open>
  Lines 68 to 94 of \<open>formatResponse\<close>, on the coerced text: more than one non-blank
  line gives one paragraph per line; otherwise the text is split on \<open>". "\<close>, and the
  sentences are the paragraphs when there are several or the text is longer than 100;
  otherwise the text is the only child.
\<close>

definition formatText :: "string \<Rightarrow> element" where
  "formatText safeText =
     (let lines = filter (\<lambda>line. trim line \<noteq> []) (split [CHR 0x0A] safeText) in
      if length lines > 1 then Fragment (Paragraphs lines)
      else
        let sentences =
              map (\<lambda>s. trim s @ (if endsWith s ''.'' then [] else ''.'')) (split ''. '' safeText)
        in if length sentences > 1 \<or> length safeText > 100 then Fragment (Paragraphs sentences)
           else Fragment (Text safeText))"

text \<open>
  Line 67: a string is taken as it is, \<open>null\<close> and \<open>undefined\<close> become the empty
  string, anything else goes through \<open>String\<close>.
\<close>

definition formatResponse :: "jsval \<Rightarrow> error + element" where
  "formatResponse text =
     (case (case text of
              JStr s \<Rightarrow> Inr s
            | JUndefined \<Rightarrow> Inr []
            | JNull \<Rightarrow> Inr []
            | _ \<Rightarrow> ToString text) of
        Inl e \<Rightarrow> Inl e
      | Inr safeText \<Rightarrow> Inr (formatText safeText))"

section \<open>The chat widget\<close>

text \<open>
  A \<open>Message\<close> holds a role and a content that is a string or a JSX element. What is
  loaded from storage is not checked against that type, so the role is any value and a
  content that is not an element is any value.
\<close>

datatype content = Raw jsval | Element element

record message =
  role :: jsval
  content :: content

record chat =
  messages :: "message list"
  input :: string
  isOpen :: bool
  sessionId :: string

text \<open>The initial values of the four \<open>useState\<close> hooks.\<close>

definition initial :: chat where
  "initial = \<lparr>messages = [], input = [], isOpen = False, sessionId = []\<rparr>"

record props =
  webhookUrl :: string
  apiKey :: string

definition default_props :: props where
  "default_props =
     \<lparr>webhookUrl = ''https://automation.tampadynamics.com/webhook/dynamics-chat'',
      apiKey = []\<rparr>"

text \<open>The POST that \<open>sendMessage\<close> dispatches: URL, JSON body and the optional header.\<close>

record request =
  url :: string
  body_message :: string
  body_sessionId :: string
  authorization :: "string option"

text \<open>
  \<open>sendMessage\<close> up to its \<open>await\<close> (lines 143 to 155): a blank input returns at once;
  otherwise the user message is appended, the input is cleared and the request leaves.
\<close>

definition sendMessage_submit :: "props \<Rightarrow> chat \<Rightarrow> chat \<times> request option" where
  "sendMessage_submit p st =
     (if trim (input st) = [] then (st, None)
      else
        let userMessage = \<lparr>role = JStr ''user'', content = Raw (JStr (input st))\<rparr> in
        (st\<lparr>messages := messages st @ [userMessage], input := []\<rparr>,
         Some \<lparr>url = webhookUrl p, body_message = input st, body_sessionId = sessionId st,
               authorization = (if apiKey p \<noteq> [] then Some (''Bearer '' @ apiKey p) else None)\<rparr>))"

text \<open>
  What \<open>await axios.post(...)\<close> comes back with: a response (axios resolves on a 2xx
  status) with its parsed \<open>data\<close>, or a rejection. What is thrown is an AxiosError,
  with the status of \<open>error.response\<close> when the server answered, or some other
  exception; only an AxiosError carries an HTTP status.
\<close>

datatype thrown = AxiosError "nat option" | Exception error

datatype outcome = Resolved jsval | Rejected thrown

text \<open>The \<open>try\<close> block after the \<open>await\<close> (lines 151 to 158): the assistant message.\<close>

definition aiMessage :: "outcome \<Rightarrow> thrown + message" where
  "aiMessage out =
     (case out of
        Rejected err \<Rightarrow> Inl err
      | Resolved data \<Rightarrow>
          (case get_prop data ''output'' of
             Inl e \<Rightarrow> Inl (Exception e)
           | Inr output \<Rightarrow>
               (case formatResponse (if truthy output then output else JStr ''AI response received'') of
                  Inl e \<Rightarrow> Inl (Exception e)
                | Inr formattedContent \<Rightarrow>
                    Inr \<lparr>role = JStr ''ai'', content = Element formattedContent\<rparr>)))"

text \<open>Lines 162 to 164: the text chosen in the \<open>catch\<close> block.\<close>

definition errorMessage :: "thrown \<Rightarrow> string" where
  "errorMessage err =
     (if (case err of AxiosError (Some status) \<Rightarrow> status = 404 | _ \<Rightarrow> False)
      then ''Error: Webhook not found (404). Check n8n setup.''
      else ''Error: Could not reach AI'')"

text \<open>
  \<open>sendMessage\<close> after its \<open>await\<close> (lines 157 to 166): the assistant message is
  appended, or, when anything was thrown, the formatted error text. \<open>Inl\<close> is an
  exception that leaves \<open>sendMessage\<close>.
\<close>

definition sendMessage_settle :: "chat \<Rightarrow> outcome \<Rightarrow> error + chat" where
  "sendMessage_settle st out =
     (case aiMessage out of
        Inr m \<Rightarrow> Inr (st\<lparr>messages := messages st @ [m]\<rparr>)
      | Inl err \<Rightarrow>
          (case formatResponse (JStr (errorMessage err)) of
             Inl e \<Rightarrow> Inl e
           | Inr formatted \<Rightarrow>
               Inr (st\<lparr>messages := messages st @ [\<lparr>role = JStr ''ai'', content = Element formatted\<rparr>]\<rparr>)))"

section \<open>JSON\<close>

text \<open>
  \<open>JSON.stringify\<close>. A string is quoted with the escapes of the standard: the quote,
  the backslash, the five named control characters, and \<open>\u00XX\<close> for the other code
  units below 0x20.
\<close>

definition escape :: "char \<Rightarrow> string" where
  "escape c =
     (if c = CHR 0x22 then [CHR 0x5C, CHR 0x22]
      else if c = CHR 0x5C then [CHR 0x5C, CHR 0x5C]
      else if c = CHR 0x08 then [CHR 0x5C, CHR ''b'']
      else if c = CHR 0x0C then [CHR 0x5C, CHR ''f'']
      else if c = CHR 0x0A then [CHR 0x5C, CHR ''n'']
      else if c = CHR 0x0D then [CHR 0x5C, CHR ''r'']
      else if c = CHR 0x09 then [CHR 0x5C, CHR ''t'']
      else if (of_char c :: nat) < 0x20
        then [CHR 0x5C, CHR ''u'', CHR ''0'', CHR ''0'',
              ''0123456789abcdef'' ! ((of_char c :: nat) div 16),
              ''0123456789abcdef'' ! ((of_char c :: nat) mod 16)]
      else [c])"

definition quote :: "string \<Rightarrow> string" where
  "quote s = [CHR 0x22] @ concat (map escape s) @ [CHR 0x22]"

text \<open>
  The text of a value, \<open>None\<close> where \<open>JSON.stringify\<close> gives \<open>undefined\<close>: an
  \<open>undefined\<close> element of an array is written \<open>null\<close>, an \<open>undefined\<close> property of
  an object is left out.
\<close>

primrec json_text :: "jsval \<Rightarrow> string option" where
  "json_text JUndefined = None"
| "json_text JNull = Some ''null''"
| "json_text (JBool b) = Some (if b then ''true'' else ''false'')"
| "json_text (JNum n) = Some (toString10 n)"
| "json_text (JStr s) = Some (quote s)"
| "json_text (JArr xs) =
     Some (''['' @ join '','' (map (\<lambda>t. case t of None \<Rightarrow> ''null'' | Some x \<Rightarrow> x)
                                 (map json_text xs)) @ '']'')"
| "json_text (JObj ps) =
     Some (''{'' @ join '','' (concat (map (\<lambda>(k, t). case t of None \<Rightarrow> [] | Some x \<Rightarrow> [quote k @ '':'' @ x])
                                         (map (map_prod id json_text) ps))) @ ''}'')"

definition JSON_stringify :: "jsval \<Rightarrow> string option" where
  "JSON_stringify v = json_text v"

text \<open>
  \<open>JSON.parse\<close>, in two passes: the characters are cut into tokens, the tokens are
  read with a stack of the open arrays and objects. \<open>Unsupported\<close> is not an outcome
  of the program: the model stops there, because the text holds a number written with
  a fraction or an exponent, or an integer of \<open>2^53\<close> or more (floating point), or an
  escape \<open>\uXXXX\<close> of a code unit above 0xFF. \<open>SyntaxError\<close> is the exception of
  \<open>JSON.parse\<close>.
\<close>

datatype token =
    Open_Brace | Close_Brace | Open_Bracket | Close_Bracket | Colon | Comma
  | Scalar jsval

datatype lexing =
    Between
  | In_String string
  | In_Escape string
  | In_Unicode string string
  | In_Number bool string
  | In_Fraction bool
  | In_Exponent_Sign
  | In_Exponent bool
  | In_Literal string jsval

definition is_digit :: "char \<Rightarrow> bool" where
  "is_digit c = (c \<in> set ''0123456789'')"

definition digits_value :: "string \<Rightarrow> nat" where
  "digits_value ds = foldl (\<lambda>n c. 10 * n + (of_char c - 48)) 0 ds"

definition hex_value :: "char \<Rightarrow> nat option" where
  "hex_value c =
     (if c \<in> set ''0123456789'' then Some (of_char c - 48)
      else if c \<in> set ''abcdef'' then Some (of_char c - 87)
      else if c \<in> set ''ABCDEF'' then Some (of_char c - 55)
      else None)"

definition unescape :: "char \<Rightarrow> char option" where
  "unescape c =
     (if c = CHR 0x22 \<or> c = CHR 0x5C \<or> c = CHR ''/'' then Some c
      else if c = CHR ''b'' then Some (CHR 0x08)
      else if c = CHR ''f'' then Some (CHR 0x0C)
      else if c = CHR ''n'' then Some (CHR 0x0A)
      else if c = CHR ''r'' then Some (CHR 0x0D)
      else if c = CHR ''t'' then Some (CHR 0x09)
      else None)"

text \<open>A character met between two tokens: the token it is, if any, and what follows.\<close>

definition between :: "char \<Rightarrow> error + token option \<times> lexing" where
  "between c =
     (if c \<in> set [CHR 0x20, CHR 0x09, CHR 0x0A, CHR 0x0D] then Inr (None, Between)
      else if c = CHR ''{'' then Inr (Some Open_Brace, Between)
      else if c = CHR ''}'' then Inr (Some Close_Brace, Between)
      else if c = CHR ''['' then Inr (Some Open_Bracket, Between)
      else if c = CHR '']'' then Inr (Some Close_Bracket, Between)
      else if c = CHR '':'' then Inr (Some Colon, Between)
      else if c = CHR '','' then Inr (Some Comma, Between)
      else if c = CHR 0x22 then Inr (None, In_String [])
      else if c = CHR ''-'' then Inr (None, In_Number True [])
      else if is_digit c then Inr (None, In_Number False [c])
      else if c = CHR ''t'' then Inr (None, In_Literal ''rue'' (JBool True))
      else if c = CHR ''f'' then Inr (None, In_Literal ''alse'' (JBool False))
      else if c = CHR ''n'' then Inr (None, In_Literal ''ull'' JNull)
      else Inl SyntaxError)"

definition number_token :: "bool \<Rightarrow> string \<Rightarrow> error + token" where
  "number_token negative ds =
     (if ds = [] then Inl SyntaxError
      else if digits_value ds < 2 ^ 53
        then Inr (Scalar (JNum (if negative then - int (digits_value ds) else int (digits_value ds))))
      else Inl Unsupported)"

definition emit :: "token option \<Rightarrow> error + token list \<Rightarrow> error + token list" where
  "emit t rest =
     (case rest of
        Inl e \<Rightarrow> Inl e
      | Inr ts \<Rightarrow> Inr (case t of None \<Rightarrow> ts | Some x \<Rightarrow> x # ts))"

fun scan :: "lexing \<Rightarrow> string \<Rightarrow> error + token list" where
  "scan Between [] = Inr []"
| "scan (In_Number negative ds) [] =
     (case number_token negative ds of Inl e \<Rightarrow> Inl e | Inr t \<Rightarrow> Inr [t])"
| "scan (In_String acc) [] = Inl SyntaxError"
| "scan (In_Escape acc) [] = Inl SyntaxError"
| "scan (In_Unicode acc hs) [] = Inl SyntaxError"
| "scan (In_Fraction seen) [] = (if seen then Inl Unsupported else Inl SyntaxError)"
| "scan In_Exponent_Sign [] = Inl SyntaxError"
| "scan (In_Exponent seen) [] = (if seen then Inl Unsupported else Inl SyntaxError)"
| "scan (In_Literal expected v) [] = Inl SyntaxError"
| "scan Between (c # cs) =
     (case between c of
        Inl e \<Rightarrow> Inl e
      | Inr (t, lx) \<Rightarrow> emit t (scan lx cs))"
| "scan (In_String acc) (c # cs) =
     (if c = CHR 0x22 then emit (Some (Scalar (JStr (rev acc)))) (scan Between cs)
      else if c = CHR 0x5C then scan (In_Escape acc) cs
      else if (of_char c :: nat) < 0x20 then Inl SyntaxError
      else scan (In_String (c # acc)) cs)"
| "scan (In_Escape acc) (c # cs) =
     (if c = CHR ''u'' then scan (In_Unicode acc []) cs
      else (case unescape c of
              None \<Rightarrow> Inl SyntaxError
            | Some d \<Rightarrow> scan (In_String (d # acc)) cs))"
| "scan (In_Unicode acc hs) (c # cs) =
     (case hex_value c of
        None \<Rightarrow> Inl SyntaxError
      | Some h \<Rightarrow>
          if length hs < 3 then scan (In_Unicode acc (hs @ [c])) cs
          else
            let n = foldl (\<lambda>n d. 16 * n + the (hex_value d)) 0 (hs @ [c]) in
            if n < 256 then scan (In_String (char_of n # acc)) cs else Inl Unsupported)"
| "scan (In_Number negative ds) (c # cs) =
     (if is_digit c then (if ds = ''0'' then Inl SyntaxError else scan (In_Number negative (ds @ [c])) cs)
      else if c = CHR ''.'' then (if ds = [] then Inl SyntaxError else scan (In_Fraction False) cs)
      else if c \<in> set ''eE'' then (if ds = [] then Inl SyntaxError else scan In_Exponent_Sign cs)
      else (case number_token negative ds of
              Inl e \<Rightarrow> Inl e
            | Inr t \<Rightarrow>
                (case between c of
                   Inl e \<Rightarrow> Inl e
                 | Inr (t', lx) \<Rightarrow> emit (Some t) (emit t' (scan lx cs)))))"
| "scan (In_Fraction seen) (c # cs) =
     (if is_digit c then scan (In_Fraction True) cs
      else if \<not> seen then Inl SyntaxError
      else if c \<in> set ''eE'' then scan In_Exponent_Sign cs
      else Inl Unsupported)"
| "scan In_Exponent_Sign (c # cs) =
     (if c \<in> set ''+-'' then scan (In_Exponent False) cs
      else if is_digit c then scan (In_Exponent True) cs
      else Inl SyntaxError)"
| "scan (In_Exponent seen) (c # cs) =
     (if is_digit c then scan (In_Exponent True) cs
      else if seen then Inl Unsupported
      else Inl SyntaxError)"
| "scan (In_Literal expected v) (c # cs) =
     (case expected of
        [] \<Rightarrow> Inl SyntaxError
      | x # xs \<Rightarrow>
          if c \<noteq> x then Inl SyntaxError
          else if xs = [] then emit (Some (Scalar v)) (scan Between cs)
          else scan (In_Literal xs v) cs)"

text \<open>
  The properties of an object are kept in the order in which JavaScript enumerates
  them: the array indices (canonical numerals below \<open>2^32 - 1\<close>) in ascending order,
  then the other names in the order of their creation. A repeated name keeps its
  place and takes the later value.
\<close>

definition array_index :: "string \<Rightarrow> nat option" where
  "array_index k =
     (if k \<noteq> [] \<and> list_all is_digit k \<and> (k = ''0'' \<or> hd k \<noteq> CHR ''0'')
         \<and> digits_value k < 2 ^ 32 - 1
      then Some (digits_value k) else None)"

fun insert_index :: "nat \<Rightarrow> string \<Rightarrow> jsval \<Rightarrow> (string \<times> jsval) list \<Rightarrow> (string \<times> jsval) list" where
  "insert_index i k v [] = [(k, v)]"
| "insert_index i k v (p # ps) =
     (case array_index (fst p) of
        None \<Rightarrow> (k, v) # p # ps
      | Some j \<Rightarrow> if j < i then p # insert_index i k v ps else (k, v) # p # ps)"

definition define_property :: "(string \<times> jsval) list \<Rightarrow> string \<Rightarrow> jsval \<Rightarrow> (string \<times> jsval) list" where
  "define_property ps k v =
     (if k \<in> fst ` set ps then map (\<lambda>p. if fst p = k then (k, v) else p) ps
      else (case array_index k of
              None \<Rightarrow> ps @ [(k, v)]
            | Some i \<Rightarrow> insert_index i k v ps))"

datatype frame =
    In_Array "jsval list"
  | In_Object "(string \<times> jsval) list"
  | In_Member "(string \<times> jsval) list" string

datatype expect = Value | First_Value | Key | First_Key | After_Key | Next | End jsval

text \<open>A finished value goes to the innermost open array or object, or is the result.\<close>

fun deliver :: "jsval \<Rightarrow> frame list \<Rightarrow> error + frame list \<times> expect" where
  "deliver v [] = Inr ([], End v)"
| "deliver v (In_Array xs # fs) = Inr (In_Array (v # xs) # fs, Next)"
| "deliver v (In_Member ps k # fs) = Inr (In_Object (define_property ps k v) # fs, Next)"
| "deliver v (In_Object ps # fs) = Inl SyntaxError"

definition advance :: "frame list \<Rightarrow> expect \<Rightarrow> token \<Rightarrow> error + frame list \<times> expect" where
  "advance fs ex t =
     (if ex = Value \<or> ex = First_Value then
        (case t of
           Scalar v \<Rightarrow> deliver v fs
         | Open_Bracket \<Rightarrow> Inr (In_Array [] # fs, First_Value)
         | Open_Brace \<Rightarrow> Inr (In_Object [] # fs, First_Key)
         | Close_Bracket \<Rightarrow>
             (case fs of
                In_Array xs # fs' \<Rightarrow> if ex = First_Value then deliver (JArr (rev xs)) fs' else Inl SyntaxError
              | _ \<Rightarrow> Inl SyntaxError)
         | _ \<Rightarrow> Inl SyntaxError)
      else if ex = Key \<or> ex = First_Key then
        (case fs of
           In_Object ps # fs' \<Rightarrow>
             (case t of
                Scalar (JStr k) \<Rightarrow> Inr (In_Member ps k # fs', After_Key)
              | Close_Brace \<Rightarrow> if ex = First_Key then deliver (JObj ps) fs' else Inl SyntaxError
              | _ \<Rightarrow> Inl SyntaxError)
         | _ \<Rightarrow> Inl SyntaxError)
      else if ex = After_Key then (if t = Colon then Inr (fs, Value) else Inl SyntaxError)
      else if ex = Next then
        (case fs of
           In_Array xs # fs' \<Rightarrow>
             if t = Comma then Inr (fs, Value)
             else if t = Close_Bracket then deliver (JArr (rev xs)) fs'
             else Inl SyntaxError
         | In_Object ps # fs' \<Rightarrow>
             if t = Comma then Inr (fs, Key)
             else if t = Close_Brace then deliver (JObj ps) fs'
             else Inl SyntaxError
         | _ \<Rightarrow> Inl SyntaxError)
      else Inl SyntaxError)"

fun parse :: "frame list \<Rightarrow> expect \<Rightarrow> token list \<Rightarrow> error + jsval" where
  "parse fs ex [] = (case ex of End v \<Rightarrow> Inr v | _ \<Rightarrow> Inl SyntaxError)"
| "parse fs ex (t # ts) =
     (case advance fs ex t of
        Inl e \<Rightarrow> Inl e
      | Inr (fs', ex') \<Rightarrow> parse fs' ex' ts)"

definition JSON_parse :: "string \<Rightarrow> error + jsval" where
  "JSON_parse text =
     (case scan Between text of
        Inl e \<Rightarrow> Inl e
      | Inr ts \<Rightarrow> parse [] Value ts)"

section \<open>Persistence and session identity\<close>

text \<open>\<open>localStorage\<close>: strings under string keys.\<close>

type_synonym storage = "string \<rightharpoonup> string"

definition getItem :: "storage \<Rightarrow> string \<Rightarrow> string option" where
  "getItem store k = store k"

definition setItem :: "storage \<Rightarrow> string \<Rightarrow> string \<Rightarrow> storage" where
  "setItem store k v = store(k \<mapsto> v)"

text \<open>
  The element \<open><p key={index} className="mb-2 last:mb-0">{line}</p>\<close> as
  \<open>JSON.stringify\<close> sees it: the enumerable properties with string names of the
  object that React creates for it (the production build of version 18). The key is
  the index as a string; \<open>$$typeof\<close> is a symbol and is skipped. Whatever the
  version, the element is an object with no \<open>toString\<close> of its own.
\<close>

definition p_element :: "nat \<Rightarrow> string \<Rightarrow> jsval" where
  "p_element index line =
     JObj [(''type'', JStr ''p''), (''key'', JStr (decimal index)), (''ref'', JNull),
           (''props'', JObj [(''className'', JStr ''mb-2 last:mb-0''), (''children'', JStr line)]),
           (''_owner'', JNull)]"

text \<open>\<open>element.props.children\<close> of a fragment built by \<open>formatResponse\<close>.\<close>

definition props_children :: "element \<Rightarrow> jsval" where
  "props_children e =
     (case e of
        Fragment (Text s) \<Rightarrow> JStr s
      | Fragment (Paragraphs ls) \<Rightarrow> JArr (map (\<lambda>(index, line). p_element index line) (enumerate 0 ls)))"

text \<open>
  Lines 134 to 137: the object stored for a message. A content that is not a string
  is read as \<open>msg.content.props.children\<close>, which throws when the content or its
  \<open>props\<close> is \<open>null\<close> or \<open>undefined\<close>.
\<close>

definition storable :: "message \<Rightarrow> error + jsval" where
  "storable msg =
     (case (case content msg of
              Raw (JStr s) \<Rightarrow> Inr (JStr s)
            | Raw v \<Rightarrow> (case get_prop v ''props'' of Inl e \<Rightarrow> Inl e | Inr ps \<Rightarrow> get_prop ps ''children'')
            | Element e \<Rightarrow> Inr (props_children e)) of
        Inl e \<Rightarrow> Inl e
      | Inr c \<Rightarrow> Inr (JObj [(''role'', role msg), (''content'', c)]))"

text \<open>
  The second effect (lines 133 to 140), run after every change of \<open>messages\<close>: the
  whole history is written again under \<open>chatMessages\<close>.
\<close>

definition saveMessages :: "message list \<Rightarrow> storage \<Rightarrow> error + storage" where
  "saveMessages msgs store =
     (case sequence (map storable msgs) of
        Inl e \<Rightarrow> Inl e
      | Inr storableMessages \<Rightarrow>
          Inr (setItem store ''chatMessages''
                 (case JSON_stringify (JArr storableMessages) of None \<Rightarrow> ''undefined'' | Some text \<Rightarrow> text)))"

text \<open>Lines 116 to 119: the message made of one element of the parsed array.\<close>

definition toMessage :: "jsval \<Rightarrow> error + message" where
  "toMessage msg =
     (case get_prop msg ''role'' of
        Inl e \<Rightarrow> Inl e
      | Inr r \<Rightarrow>
          (case get_prop msg ''content'' of
             Inl e \<Rightarrow> Inl e
           | Inr c \<Rightarrow>
               if r = JStr ''ai''
               then (case formatResponse c of
                       Inl e \<Rightarrow> Inl e
                     | Inr formatted \<Rightarrow> Inr \<lparr>role = r, content = Element formatted\<rparr>)
               else Inr \<lparr>role = r, content = Raw c\<rparr>))"

text \<open>
  Lines 112 to 121: \<open>None\<close> when nothing (or the empty string) is stored and
  \<open>setMessages\<close> is not called. Nothing catches what \<open>JSON.parse\<close> throws, and calling
  \<open>.map\<close> on a parsed value that is not an array throws a TypeError.
\<close>

definition loadMessages :: "storage \<Rightarrow> error + message list option" where
  "loadMessages store =
     (case getItem store ''chatMessages'' of
        None \<Rightarrow> Inr None
      | Some storedMessages \<Rightarrow>
          if storedMessages = [] then Inr None
          else
            (case JSON_parse storedMessages of
               Inl e \<Rightarrow> Inl e
             | Inr parsedMessages \<Rightarrow>
                 (case parsedMessages of
                    JArr msgs \<Rightarrow>
                      (case sequence (map toMessage msgs) of
                         Inl e \<Rightarrow> Inl e
                       | Inr loaded \<Rightarrow> Inr (Some loaded))
                  | _ \<Rightarrow> Inl TypeError)))"

text \<open>
  \<open>generateSessionId\<close>: 32 draws of \<open>Math.random()\<close>, the \<open>i\<close>-th being \<open>random i\<close>,
  each scaled by 16 (exact on doubles), floored and written in base 16.
\<close>

definition generateSessionId :: "(nat \<Rightarrow> real) \<Rightarrow> string" where
  "generateSessionId random = join [] (map (\<lambda>i. toString16 \<lfloor>random i * 16\<rfloor>) [0..<32])"

text \<open>
  The first effect (lines 111 to 131), run once when the widget mounts, from the
  initial state: the stored history is loaded, then the stored session id is taken,
  or, when there is none (or an empty one), a new one is generated and stored.
  \<open>Inl\<close> is an exception thrown before anything was written.
\<close>

definition mount :: "(nat \<Rightarrow> real) \<Rightarrow> storage \<Rightarrow> error + chat \<times> storage" where
  "mount random store =
     (case loadMessages store of
        Inl e \<Rightarrow> Inl e
      | Inr loaded \<Rightarrow>
          let st = (case loaded of None \<Rightarrow> initial | Some ms \<Rightarrow> initial\<lparr>messages := ms\<rparr>) in
          (case getItem store ''chatSessionId'' of
             None \<Rightarrow>
               let newSessionId = generateSessionId random in
               Inr (st\<lparr>sessionId := newSessionId\<rparr>, setItem store ''chatSessionId'' newSessionId)
           | Some storedSessionId \<Rightarrow>
               if storedSessionId \<noteq> [] then Inr (st\<lparr>sessionId := storedSessionId\<rparr>, store)
               else
                 let newSessionId = generateSessionId random in
                 Inr (st\<lparr>sessionId := newSessionId\<rparr>, setItem store ''chatSessionId'' newSessionId)))"

section \<open>The widget as a transition system\<close>

text \<open>
  The component with what surrounds it: its state, the browser's storage and the
  requests sent so far. An event is the mounting of the widget, a click on the round
  button or on the cross, a change of the input field, the submission of the form, or
  the settling of a pending request. After each event that sets \<open>messages\<close> the second
  effect runs. At mount it runs twice: with the empty history of the first render, then
  with the history of the render that follows the first effect (when that one did not
  call \<open>setMessages\<close> the second run is not in the program, and in the model it writes
  the same text again).
\<close>

record world =
  ui :: chat
  localStorage :: storage
  sent :: "request list"

datatype event = Mount | Toggle | Close | Change string | Submit | Settle outcome

definition step :: "props \<Rightarrow> (nat \<Rightarrow> real) \<Rightarrow> world \<Rightarrow> event \<Rightarrow> error + world" where
  "step p random w ev =
     (case ev of
        Mount \<Rightarrow>
          (case mount random (localStorage w) of
             Inl e \<Rightarrow> Inl e
           | Inr (st, store1) \<Rightarrow>
               (case saveMessages (messages initial) store1 of
                  Inl e \<Rightarrow> Inl e
                | Inr store2 \<Rightarrow>
                    (case saveMessages (messages st) store2 of
                       Inl e \<Rightarrow> Inl e
                     | Inr store3 \<Rightarrow> Inr (w\<lparr>ui := st, localStorage := store3\<rparr>))))
      | Toggle \<Rightarrow> Inr (w\<lparr>ui := (ui w)\<lparr>isOpen := \<not> isOpen (ui w)\<rparr>\<rparr>)
      | Close \<Rightarrow> Inr (w\<lparr>ui := (ui w)\<lparr>isOpen := False\<rparr>\<rparr>)
      | Change text \<Rightarrow> Inr (w\<lparr>ui := (ui w)\<lparr>input := text\<rparr>\<rparr>)
      | Submit \<Rightarrow>
          (case sendMessage_submit p (ui w) of
             (st, None) \<Rightarrow> Inr w
           | (st, Some req) \<Rightarrow>
               (case saveMessages (messages st) (localStorage w) of
                  Inl e \<Rightarrow> Inl e
                | Inr store \<Rightarrow> Inr (w\<lparr>ui := st, localStorage := store, sent := sent w @ [req]\<rparr>)))
      | Settle out \<Rightarrow>
          (case sendMessage_settle (ui w) out of
             Inl e \<Rightarrow> Inl e
           | Inr st \<Rightarrow>
               (case saveMessages (messages st) (localStorage w) of
                  Inl e \<Rightarrow> Inl e
                | Inr store \<Rightarrow> Inr (w\<lparr>ui := st, localStorage := store\<rparr>))))"

fun run :: "props \<Rightarrow> (nat \<Rightarrow> real) \<Rightarrow> world \<Rightarrow> event list \<Rightarrow> error + world" where
  "run p random w [] = Inr w"
| "run p random w (ev # evs) =
     (case step p random w ev of
        Inl e \<Rightarrow> Inl e
      | Inr w' \<Rightarrow> run p random w' evs)"

text \<open>A browser profile that has never shown the widget.\<close>

definition fresh :: world where
  "fresh = \<lparr>ui = initial, localStorage = Map.empty, sent = []\<rparr>"

section \<open>The admin page\<close>

text \<open>
  What \<open>ProtectedPage\<close> reads of the session that \<open>fetchAuthSession\<close> resolves to:
  \<open>session?.tokens?.idToken?.payload['cognito:groups']\<close>. The operation passed to
  \<open>runWithAmplifyServerContext\<close> returns \<open>null\<close> when \<open>fetchAuthSession\<close> throws.
\<close>

record jwt =
  payload :: "(string \<times> jsval) list"

record auth_tokens =
  idToken :: "jwt option"

record auth_session =
  tokens :: "auth_tokens option"

datatype fetched = Session auth_session | Thrown

datatype html = Div string

text \<open>
  \<open>groups.includes('admin')\<close>: membership for an array, a substring test for a
  string; any other truthy value has no method \<open>includes\<close>.
\<close>

definition js_includes :: "jsval \<Rightarrow> string \<Rightarrow> error + bool" where
  "js_includes groups name =
     (case groups of
        JArr xs \<Rightarrow> Inr (JStr name \<in> set xs)
      | JStr s \<Rightarrow> Inr (sublist name s)
      | _ \<Rightarrow> Inl TypeError)"

definition groups_claim :: "fetched \<Rightarrow> jsval" where
  "groups_claim f =
     (case f of
        Thrown \<Rightarrow> JUndefined
      | Session session \<Rightarrow>
          (case tokens session of
             None \<Rightarrow> JUndefined
           | Some ts \<Rightarrow>
               (case idToken ts of
                  None \<Rightarrow> JUndefined
                | Some token \<Rightarrow>
                    (case map_of (payload token) ''cognito:groups'' of
                       None \<Rightarrow> JUndefined
                     | Some v \<Rightarrow> v))))"

definition ProtectedPage :: "fetched \<Rightarrow> error + html" where
  "ProtectedPage f =
     (let groups = (if truthy (groups_claim f) then groups_claim f else JArr []) in
      case js_includes groups ''admin'' of
        Inl e \<Rightarrow> Inl e
      | Inr isAdmin \<Rightarrow>
          if \<not> isAdmin then Inr (Div ''Access Denied: Admins Only'')
          else Inr (Div ''Welcome, Admin! This is protected content.''))"

section \<open>Evaluation and auxiliary lemmas\<close>

lemmas text_eval = formatText_def split_def trim_def is_space_def endsWith_def suffix_to_prefix

lemmas stringify_eval = JSON_stringify_def quote_def escape_def toString10_def

lemmas parse_eval = JSON_parse_def between_def emit_def advance_def define_property_def
  array_index_def is_digit_def number_token_def unescape_def hex_value_def digits_value_def

lemmas storage_eval = saveMessages_def storable_def props_children_def p_element_def
  setItem_def getItem_def loadMessages_def toMessage_def

lemma trim_blank:
  assumes "\<forall>c\<in>set s. is_space c"
  shows "trim s = []"
proof -
  have blank: "dropWhile is_space s = []"
    using assms by simp
  show ?thesis
    unfolding trim_def blank by simp
qed

lemma formatResponse_JStr: "formatResponse (JStr s) = Inr (formatText s)"
  by (simp add: formatResponse_def)

lemma aiMessage_Inr:
  assumes "aiMessage out = Inr m"
  shows "\<exists>c. m = \<lparr>role = JStr ''ai'', content = Element c\<rparr>"
  using assms by (auto simp add: aiMessage_def split: outcome.splits sum.splits)

lemma mount_fresh:
  "mount random Map.empty =
     Inr (initial\<lparr>sessionId := generateSessionId random\<rparr>,
          [''chatSessionId'' \<mapsto> generateSessionId random])"
  by (simp add: mount_def loadMessages_def getItem_def setItem_def Let_def)







section \<open>The claims\<close>

text \<open>
  C1 (as the code has it). When nothing is stored under \<open>chatMessages\<close>, or the empty
  string is, the load on mount leaves the history empty and throws nothing. A stored
  text that \<open>JSON.parse\<close> rejects is not discarded: the SyntaxError leaves the mount
  effect, which has no handler; and a text that parses to something that is not an
  array makes the effect throw a TypeError.
\<close>

theorem C1_load_absent_or_unparsable:
  "(getItem store ''chatMessages'' = None \<or> getItem store ''chatMessages'' = Some []
      \<longrightarrow> loadMessages store = Inr None
          \<and> (\<exists>st store'. mount random store = Inr (st, store') \<and> messages st = []))
   \<and> (getItem store ''chatMessages'' = Some stored \<and> stored \<noteq> []
        \<and> JSON_parse stored = Inl SyntaxError
      \<longrightarrow> loadMessages store = Inl SyntaxError \<and> mount random store = Inl SyntaxError)
   \<and> (getItem store ''chatMessages'' = Some stored \<and> stored \<noteq> []
        \<and> JSON_parse stored = Inr v \<and> (\<forall>xs. v \<noteq> JArr xs)
      \<longrightarrow> loadMessages store = Inl TypeError \<and> mount random store = Inl TypeError)"
proof -
  have absent: "loadMessages store = Inr None
      \<and> (\<exists>st store'. mount random store = Inr (st, store') \<and> messages st = [])"
    if "getItem store ''chatMessages'' = None \<or> getItem store ''chatMessages'' = Some []"
    using that
    by (auto simp add: loadMessages_def mount_def initial_def Let_def split: option.splits)
  have unparsable: "loadMessages store = Inl SyntaxError \<and> mount random store = Inl SyntaxError"
    if "getItem store ''chatMessages'' = Some stored" "stored \<noteq> []"
      "JSON_parse stored = Inl SyntaxError"
    using that by (simp add: loadMessages_def mount_def)
  have no_array: "loadMessages store = Inl TypeError \<and> mount random store = Inl TypeError"
    if "getItem store ''chatMessages'' = Some stored" "stored \<noteq> []"
      "JSON_parse stored = Inr v" "\<forall>xs. v \<noteq> JArr xs"
    using that by (cases v) (simp_all add: loadMessages_def mount_def)
  show ?thesis
    using absent unparsable no_array by blast
qed

theorem C1_witness:
  \<open>mount (\<lambda>i. 0) [''chatMessages'' \<mapsto> ''not json''] = Inl SyntaxError
   \<and> mount (\<lambda>i. 0) [''chatMessages'' \<mapsto> ''{"role":"user"}''] = Inl TypeError
   \<and> loadMessages [''chatMessages'' \<mapsto> []] = Inr None
   \<and> loadMessages Map.empty = Inr None\<close>
proof -
  have rejected: "JSON_parse ''not json'' = Inl SyntaxError"
    by (simp add: parse_eval)
  have parsed: \<open>JSON_parse ''{"role":"user"}'' = Inr (JObj [(''role'', JStr ''user'')])\<close>
    by (simp add: parse_eval)
  show ?thesis
    using C1_load_absent_or_unparsable
        [where store = "[''chatMessages'' \<mapsto> ''not json'']" and random = "\<lambda>i. 0"
           and stored = "''not json''"]
      C1_load_absent_or_unparsable
        [where store = \<open>[''chatMessages'' \<mapsto> ''{"role":"user"}'']\<close> and random = "\<lambda>i. 0"
           and stored = \<open>''{"role":"user"}''\<close> and v = "JObj [(''role'', JStr ''user'')]"]
      C1_load_absent_or_unparsable
        [where store = "[''chatMessages'' \<mapsto> []]" and random = "\<lambda>i. 0" and stored = "[]"]
      C1_load_absent_or_unparsable
        [where store = "Map.empty" and random = "\<lambda>i. 0" and stored = "[]"]
      rejected parsed
    by (simp add: getItem_def)
qed

text \<open>
  C1, the claim as stated, fails: the stored text \<open>{\<close> is not a serialised history,
  \<open>JSON.parse\<close> rejects it, and the mount effect throws the SyntaxError instead of
  giving the empty history.
\<close>

theorem C1_counterexample:
  \<open>JSON_parse ''{'' = Inl SyntaxError
   \<and> mount (\<lambda>i. 0) [''chatMessages'' \<mapsto> ''{''] = Inl SyntaxError\<close>
  by (simp add: mount_def storage_eval parse_eval)

text \<open>
  C2 fails on the code. After a request that failed with status 404 the history
  holds the user's message and the two-paragraph error message. What the save effect
  writes for the assistant message is not a string: its \<open>content\<close> is the array of the
  two serialised \<open><p>\<close> element objects, since \<open>props.children\<close> of a fragment with
  paragraphs is that array and nothing joins it.
\<close>

theorem C2_paragraphs_stored_as_objects:
  \<open>map_sum id (\<lambda>w. (messages (ui w), getItem (localStorage w) ''chatMessages''))
     (run default_props (\<lambda>i. 0) fresh
        [Mount, Change ''Hello'', Submit, Settle (Rejected (AxiosError (Some 404)))])
   = Inr ([\<lparr>role = JStr ''user'', content = Raw (JStr ''Hello'')\<rparr>,
           \<lparr>role = JStr ''ai'',
             content = Element (Fragment (Paragraphs
               [''Error: Webhook not found (404).'', ''Check n8n setup.'']))\<rparr>],
          Some (''[{"role":"user","content":"Hello"},{"role":"ai","content":['' @
                ''{"type":"p","key":"0","ref":null,"props":{"className":"mb-2 last:mb-0",'' @
                ''"children":"Error: Webhook not found (404)."},"_owner":null},'' @
                ''{"type":"p","key":"1","ref":null,"props":{"className":"mb-2 last:mb-0",'' @
                ''"children":"Check n8n setup."},"_owner":null}]}]''))\<close>
  by (simp add: step_def fresh_def mount_fresh initial_def sendMessage_submit_def
      sendMessage_settle_def aiMessage_def errorMessage_def formatResponse_JStr
      text_eval stringify_eval storage_eval Let_def)

text \<open>
  C3. Whatever a request fails with, \<open>sendMessage\<close> returns normally and appends
  exactly one assistant message: the formatted text \<open>Error: Webhook not found (404).
  Check n8n setup.\<close> when (and only when) the failure is an AxiosError whose response
  has status 404, and the formatted text \<open>Error: Could not reach AI\<close> otherwise.
\<close>

theorem C3_failure_texts:
  "sendMessage_settle st (Rejected err) =
     Inr (st\<lparr>messages := messages st @
            [\<lparr>role = JStr ''ai'',
              content = Element (formatText
                (if err = AxiosError (Some 404)
                 then ''Error: Webhook not found (404). Check n8n setup.''
                 else ''Error: Could not reach AI''))\<rparr>]\<rparr>)"
  by (auto simp add: sendMessage_settle_def aiMessage_def errorMessage_def formatResponse_JStr
      split: thrown.splits option.splits)

text \<open>
  C4 fails on the code. The stored history is one assistant message of 112
  characters with no newline and no \<open>". "\<close>. The first load formats it as one
  paragraph (a single block); the save that follows stores the array holding that
  \<open><p>\<close> element object, and the next load shows \<open>[object Object]\<close>.
\<close>

theorem C4_second_load_differs:
  \<open>map_sum id (\<lambda>w. messages (ui w))
     (run default_props (\<lambda>i. 0)
        (fresh\<lparr>localStorage := [''chatMessages'' \<mapsto>
           ''[{"role":"ai","content":"Thank you for contacting Tampa Dynamics, a member of our team will reply to your request within one business day"}]'']\<rparr>)
        [Mount])
   = Inr [\<lparr>role = JStr ''ai'', content = Element (Fragment (Paragraphs
           [''Thank you for contacting Tampa Dynamics, a member of our team will reply to your request within one business day.'']))\<rparr>]
   \<and> map_sum id (\<lambda>w. messages (ui w))
     (run default_props (\<lambda>i. 0)
        (fresh\<lparr>localStorage := [''chatMessages'' \<mapsto>
           ''[{"role":"ai","content":"Thank you for contacting Tampa Dynamics, a member of our team will reply to your request within one business day"}]'']\<rparr>)
        [Mount, Mount])
   = Inr [\<lparr>role = JStr ''ai'', content = Element (Fragment (Text ''[object Object]''))\<rparr>]\<close>
  by (simp add: step_def fresh_def mount_def initial_def formatResponse_def
      text_eval stringify_eval parse_eval storage_eval Let_def)

text \<open>
  C5 fails on the code. The text \<open>First. Second.\<close> followed by a newline has one
  non-blank line and splits into \<open>First\<close> and \<open>Second.\<close> with the newline. The second
  fragment, once trimmed, ends with a period, yet a period is appended: \<open>endsWith\<close> is
  asked of the fragment before trimming.
\<close>

theorem C5_double_period:
  "formatText (''First. Second.'' @ [CHR 0x0A]) = Fragment (Paragraphs [''First.'', ''Second..''])"
  by (simp add: text_eval)




text \<open>
  C7. From a fresh profile, mounting the widget, opening it, typing \<open>Hello\<close> and
  submitting gives, before anything comes back, the history of the one user message,
  stored as such, and one request carrying the message and the session id. When the
  response \<open>{output: "Hi there."}\<close> arrives, the history is the user message followed
  by the assistant message \<open>Hi there.\<close>, and both are in storage as strings. A
  response whose \<open>output\<close> is absent or empty appends the formatted text
  \<open>AI response received\<close>.
\<close>

theorem C7_hello_scenario:
  \<open>run p random fresh [Mount, Toggle, Change ''Hello'', Submit] =
     Inr \<lparr>ui = \<lparr>messages = [\<lparr>role = JStr ''user'', content = Raw (JStr ''Hello'')\<rparr>],
                input = [], isOpen = True, sessionId = generateSessionId random\<rparr>,
          localStorage = [''chatSessionId'' \<mapsto> generateSessionId random,
                          ''chatMessages'' \<mapsto> ''[{"role":"user","content":"Hello"}]''],
          sent = [\<lparr>url = webhookUrl p, body_message = ''Hello'',
                   body_sessionId = generateSessionId random,
                   authorization = (if apiKey p \<noteq> [] then Some (''Bearer '' @ apiKey p) else None)\<rparr>]\<rparr>
   \<and> run p random fresh [Mount, Toggle, Change ''Hello'', Submit,
                          Settle (Resolved (JObj [(''output'', JStr ''Hi there.'')]))] =
     Inr \<lparr>ui = \<lparr>messages = [\<lparr>role = JStr ''user'', content = Raw (JStr ''Hello'')\<rparr>,
                            \<lparr>role = JStr ''ai'', content = Element (Fragment (Text ''Hi there.''))\<rparr>],
                input = [], isOpen = True, sessionId = generateSessionId random\<rparr>,
          localStorage = [''chatSessionId'' \<mapsto> generateSessionId random,
                          ''chatMessages'' \<mapsto>
                            ''[{"role":"user","content":"Hello"},{"role":"ai","content":"Hi there."}]''],
          sent = [\<lparr>url = webhookUrl p, body_message = ''Hello'',
                   body_sessionId = generateSessionId random,
                   authorization = (if apiKey p \<noteq> [] then Some (''Bearer '' @ apiKey p) else None)\<rparr>]\<rparr>
   \<and> (get_prop data ''output'' = Inr JUndefined \<or> get_prop data ''output'' = Inr (JStr [])
        \<longrightarrow> sendMessage_settle st (Resolved data) =
            Inr (st\<lparr>messages := messages st @
                   [\<lparr>role = JStr ''ai'', content = Element (Fragment (Text ''AI response received''))\<rparr>]\<rparr>))\<close>
  by (auto simp add: step_def fresh_def mount_fresh initial_def sendMessage_submit_def
      sendMessage_settle_def aiMessage_def formatResponse_JStr
      text_eval stringify_eval storage_eval Let_def)

theorem C7_fallback_witness:
  "sendMessage_settle initial (Resolved (JObj [])) =
     Inr (initial\<lparr>messages :=
       [\<lparr>role = JStr ''ai'', content = Element (Fragment (Text ''AI response received''))\<rparr>]\<rparr>)
   \<and> sendMessage_settle initial (Resolved (JObj [(''output'', JStr [])])) =
     Inr (initial\<lparr>messages :=
       [\<lparr>role = JStr ''ai'', content = Element (Fragment (Text ''AI response received''))\<rparr>]\<rparr>)"
  using C7_hello_scenario [where data = "JObj []" and st = initial]
    C7_hello_scenario [where data = "JObj [(''output'', JStr [])]" and st = initial]
  by (simp add: initial_def)

text \<open>
  C8. A submission whose input is empty or consists of white space only changes
  nothing: \<open>sendMessage\<close> returns the state as it was (no message appended, the input
  not cleared) and dispatches no request; the widget, its storage and the list of
  requests sent stay as they were.
\<close>

theorem C8_blank_submission_rejected:
  assumes "\<forall>c\<in>set (input st). is_space c"
  shows "sendMessage_submit p st = (st, None)
    \<and> (ui w = st \<longrightarrow> step p random w Submit = Inr w)"
  using assms by (simp add: sendMessage_submit_def step_def trim_blank)

theorem C8_blank_submission_witness:
  "sendMessage_submit default_props (initial\<lparr>input := [CHR 0x20, CHR 0x09, CHR 0x0A]\<rparr>)
     = (initial\<lparr>input := [CHR 0x20, CHR 0x09, CHR 0x0A]\<rparr>, None)
   \<and> step default_props (\<lambda>i. 0) (fresh\<lparr>ui := initial\<lparr>input := [CHR 0x20, CHR 0x09, CHR 0x0A]\<rparr>\<rparr>) Submit
     = Inr (fresh\<lparr>ui := initial\<lparr>input := [CHR 0x20, CHR 0x09, CHR 0x0A]\<rparr>\<rparr>)
   \<and> sendMessage_submit default_props initial = (initial, None)"
  using C8_blank_submission_rejected
      [where st = "initial\<lparr>input := [CHR 0x20, CHR 0x09, CHR 0x0A]\<rparr>" and p = default_props
         and random = "\<lambda>i. 0"
         and w = "fresh\<lparr>ui := initial\<lparr>input := [CHR 0x20, CHR 0x09, CHR 0x0A]\<rparr>\<rparr>"]
    C8_blank_submission_rejected [where st = initial and p = default_props and w = fresh]
  by (simp add: is_space_def initial_def)

text \<open>
  C9. When the group claim of the session's id token is a list, the page is the
  welcome text if the list holds the string \<open>admin\<close> and the denial text if it does
  not. Without a group claim, or with a falsy one, the page is the denial text: that
  is so when there is no session because \<open>fetchAuthSession\<close> threw, and when the
  session has no tokens.
\<close>

theorem C9_admin_gate:
  "(groups_claim f = JArr gs \<longrightarrow>
      ProtectedPage f = Inr (if JStr ''admin'' \<in> set gs
                             then Div ''Welcome, Admin! This is protected content.''
                             else Div ''Access Denied: Admins Only''))
   \<and> (\<not> truthy (groups_claim f) \<longrightarrow> ProtectedPage f = Inr (Div ''Access Denied: Admins Only''))
   \<and> groups_claim Thrown = JUndefined
   \<and> groups_claim (Session \<lparr>tokens = None\<rparr>) = JUndefined
   \<and> ProtectedPage Thrown = Inr (Div ''Access Denied: Admins Only'')"
  by (simp add: ProtectedPage_def js_includes_def groups_claim_def)

theorem C9_witness:
  "ProtectedPage (Session \<lparr>tokens = Some \<lparr>idToken = Some \<lparr>payload =
       [(''cognito:groups'', JArr [JStr ''admin'', JStr ''staff''])]\<rparr>\<rparr>\<rparr>)
     = Inr (Div ''Welcome, Admin! This is protected content.'')
   \<and> ProtectedPage (Session \<lparr>tokens = Some \<lparr>idToken = Some \<lparr>payload =
       [(''cognito:groups'', JArr [JStr ''user''])]\<rparr>\<rparr>\<rparr>)
     = Inr (Div ''Access Denied: Admins Only'')
   \<and> ProtectedPage (Session \<lparr>tokens = None\<rparr>) = Inr (Div ''Access Denied: Admins Only'')"
  using C9_admin_gate [of "Session \<lparr>tokens = Some \<lparr>idToken = Some \<lparr>payload =
       [(''cognito:groups'', JArr [JStr ''admin'', JStr ''staff''])]\<rparr>\<rparr>\<rparr>" "[JStr ''admin'', JStr ''staff'']"]
    C9_admin_gate [of "Session \<lparr>tokens = Some \<lparr>idToken = Some \<lparr>payload =
       [(''cognito:groups'', JArr [JStr ''user''])]\<rparr>\<rparr>\<rparr>" "[JStr ''user'']"]
    C9_admin_gate [of "Session \<lparr>tokens = None\<rparr>" "[]"]
  by (simp add: groups_claim_def)

text \<open>
  C10. Each of the two state updates of \<open>sendMessage\<close> appends one message at the end
  of the history and changes nothing before it: whatever the request settles to
  (a response, a rejection, an exception in the \<open>try\<close> block), one assistant message
  is appended; a submission appends the user's message, unless the input is blank, in
  which case the state is not updated at all.
\<close>

theorem C10_append_only:
  "(\<exists>c. sendMessage_settle st out =
          Inr (st\<lparr>messages := messages st @ [\<lparr>role = JStr ''ai'', content = Element c\<rparr>]\<rparr>))
   \<and> fst (sendMessage_submit p st) =
       (if trim (input st) = [] then st
        else st\<lparr>messages := messages st @ [\<lparr>role = JStr ''user'', content = Raw (JStr (input st))\<rparr>],
                input := []\<rparr>)"
proof -
  have "\<exists>c. sendMessage_settle st out =
          Inr (st\<lparr>messages := messages st @ [\<lparr>role = JStr ''ai'', content = Element c\<rparr>]\<rparr>)"
  proof (cases "aiMessage out")
    case (Inl err)
    then have "sendMessage_settle st out =
        Inr (st\<lparr>messages := messages st @
          [\<lparr>role = JStr ''ai'', content = Element (formatText (errorMessage err))\<rparr>]\<rparr>)"
      by (simp add: sendMessage_settle_def formatResponse_JStr)
    then show ?thesis
      by blast
  next
    case (Inr m)
    moreover obtain c where "m = \<lparr>role = JStr ''ai'', content = Element c\<rparr>"
      using aiMessage_Inr [OF Inr] by blast
    ultimately have "sendMessage_settle st out =
        Inr (st\<lparr>messages := messages st @ [\<lparr>role = JStr ''ai'', content = Element c\<rparr>]\<rparr>)"
      by (simp add: sendMessage_settle_def)
    then show ?thesis
      by blast
  qed
  moreover have "fst (sendMessage_submit p st) =
       (if trim (input st) = [] then st
        else st\<lparr>messages := messages st @ [\<lparr>role = JStr ''user'', content = Raw (JStr (input st))\<rparr>],
                input := []\<rparr>)"
    by (simp add: sendMessage_submit_def Let_def)
  ultimately show ?thesis
    by blast
qed

end
